theory Spec2Isabelle
  imports Complex_Main
begin

section \<open>The AdaNet objective tutorial: candidate builder and generator\<close>

text \<open>
  The notebook \<^verbatim>\<open>adanet/examples/tutorials/adanet_objective.ipynb\<close> defines two classes,
  \<^verbatim>\<open>_SimpleDNNBuilder\<close> and \<^verbatim>\<open>SimpleDNNGenerator\<close>. Their methods are embedded below.
  Python integers are \<open>int\<close>, an optional seed is \<open>int option\<close>, a dictionary is a map, a
  raised exception is the left injection of a sum, and a method returns its result together
  with the receiver object as it stands when the method returns. A method that calls
  TensorFlow also takes the default graph and returns it as the calls left it. An argument
  that is \<^verbatim>\<open>None\<close> or an object, such as \<^verbatim>\<open>previous_ensemble\<close>, is an \<open>option\<close>: the
  test \<^verbatim>\<open>if previous_ensemble:\<close> fails on \<^verbatim>\<open>None\<close> and succeeds on an ensemble.
\<close>

subsection \<open>Exceptions, dictionaries and lists\<close>

datatype error = KeyError | IndexError | TypeError | ValueError

text \<open>\<^verbatim>\<open>d[k]\<close> on a dictionary raises \<^verbatim>\<open>KeyError\<close> for a missing key.\<close>

definition getitem :: "('k \<rightharpoonup> 'v) \<Rightarrow> 'k \<Rightarrow> error + 'v" where
  "getitem d k = (case d k of None \<Rightarrow> Inl KeyError | Some v \<Rightarrow> Inr v)"

text \<open>\<^verbatim>\<open>xs[-1]\<close> on a list raises \<^verbatim>\<open>IndexError\<close> when the list is empty.\<close>

definition last_item :: "'a list \<Rightarrow> error + 'a" where
  "last_item xs = (if xs = [] then Inl IndexError else Inr (last xs))"

subsection \<open>The default graph\<close>

text \<open>
  In TensorFlow 1 a call such as \<^verbatim>\<open>tf.sqrt(x)\<close> computes nothing: it adds an operation
  to the default graph and returns the tensor that operation will produce. A tensor is
  modelled as the term of its operation and its inputs, with the name the graph gave it;
  the name is the number of nodes the graph held when the node was made, so that two nodes
  made by two calls differ. The graph is the list of its nodes, oldest first. One node
  stands for one call of the notebook: the variables and operations inside a dense layer
  are not told apart. \<open>Placeholder\<close> stands for a tensor that the input pipeline or the
  framework supplies.
\<close>

datatype dtype = float32 | float64 | int32 | int64 | uint64

datatype initializer = glorot_uniform_initializer "int option"

datatype activation = relu

datatype tensor =
    Placeholder string dtype
  | Const nat int
  | Cast nat tensor
  | Sqrt nat tensor
  | Dense nat tensor int "activation option" initializer

type_synonym graph = "tensor list"

definition new_node :: "(nat \<Rightarrow> tensor) \<Rightarrow> graph \<Rightarrow> tensor \<times> graph" where
  "new_node mk g = (mk (length g), g @ [mk (length g)])"

text \<open>
  The type TensorFlow gives to a constant made from a Python integer: \<open>int32\<close> when the
  value fits, else \<open>int64\<close>, else \<open>uint64\<close>. \<open>Cast\<close> is the cast to \<open>float32\<close>, the only
  cast of the notebook.
\<close>

definition int_dtype :: "int \<Rightarrow> dtype" where
  "int_dtype v =
     (if - (2 ^ 31) \<le> v \<and> v < 2 ^ 31 then int32
      else if - (2 ^ 63) \<le> v \<and> v < 2 ^ 63 then int64
      else uint64)"

fun dtype_of :: "tensor \<Rightarrow> dtype" where
  "dtype_of (Placeholder s dt) = dt"
| "dtype_of (Const u v) = int_dtype v"
| "dtype_of (Cast u t) = float32"
| "dtype_of (Sqrt u t) = dtype_of t"
| "dtype_of (Dense u t units act k) = dtype_of t"

text \<open>
  \<^verbatim>\<open>tf.constant(v)\<close> for a Python integer \<open>v\<close>, which is also the conversion that
  \<^verbatim>\<open>tf.to_float(v)\<close> applies to \<open>v\<close> first: an integer outside the 64-bit types has no
  tensor type and the call raises \<^verbatim>\<open>TypeError\<close>.
\<close>

definition tf_constant :: "int \<Rightarrow> graph \<Rightarrow> (error + tensor) \<times> graph" where
  "tf_constant v g =
     (if - (2 ^ 63) \<le> v \<and> v < 2 ^ 64
      then (case new_node (\<lambda>u. Const u v) g of (t, g') \<Rightarrow> (Inr t, g'))
      else (Inl TypeError, g))"

text \<open>
  \<^verbatim>\<open>tf.to_float(x)\<close> for a tensor \<open>x\<close>: a tensor that is \<open>float32\<close> already is returned
  as it is, and no node is added.
\<close>

definition tf_to_float :: "tensor \<Rightarrow> graph \<Rightarrow> tensor \<times> graph" where
  "tf_to_float x g = (if dtype_of x = float32 then (x, g) else new_node (\<lambda>u. Cast u x) g)"

text \<open>\<^verbatim>\<open>tf.sqrt(x)\<close>: defined on floating tensors, \<^verbatim>\<open>TypeError\<close> on the integer types.\<close>

definition tf_sqrt :: "tensor \<Rightarrow> graph \<Rightarrow> (error + tensor) \<times> graph" where
  "tf_sqrt x g =
     (if dtype_of x = float32 \<or> dtype_of x = float64
      then (case new_node (\<lambda>u. Sqrt u x) g of (t, g') \<Rightarrow> (Inr t, g'))
      else (Inl TypeError, g))"

text \<open>
  \<^verbatim>\<open>tf.layers.dense(inputs, units=..., activation=..., kernel_initializer=...)\<close>, which the
  notebook applies to \<open>float32\<close> tensors only: a negative number of units raises
  \<^verbatim>\<open>ValueError\<close>.
\<close>

definition tf_layers_dense ::
  "tensor \<Rightarrow> int \<Rightarrow> activation option \<Rightarrow> initializer \<Rightarrow> graph \<Rightarrow> (error + tensor) \<times> graph" where
  "tf_layers_dense inputs units act k g =
     (if units < 0 then (Inl ValueError, g)
      else (case new_node (\<lambda>u. Dense u inputs units act k) g of (t, g') \<Rightarrow> (Inr t, g')))"

datatype 'o train_op = tf_no_op | minimize 'o tensor "tensor list"

text \<open>
  \<^verbatim>\<open>tf.contrib.util.constant_value\<close> returns the value of a constant node, as a numpy
  integer of the node's type, and \<^verbatim>\<open>None\<close> for a node whose value is not known
  statically. It adds no node. For a cast of a constant TensorFlow folds the cast and
  returns a float; the depths of this model are integers, and for every node but a
  constant the model has \<open>None\<close>.
\<close>

fun constant_value :: "tensor \<Rightarrow> int option" where
  "constant_value (Const u v) = Some v"
| "constant_value _ = None"

subsection \<open>The value of a node in \<open>float32\<close>\<close>

text \<open>
  When the graph runs, a cast of an integer yields the \<open>float32\<close> nearest to it, and a
  square root yields the \<open>float32\<close> nearest to the real root (IEEE 754, ties to the even
  mantissa). A \<open>float32\<close> has 24 significant bits. The roundings are computed on natural
  numbers: \<open>bit_length\<close> is Python's \<^verbatim>\<open>int.bit_length\<close>; a number \<open>s\<close> lies between two
  neighbours \<open>q * 2 ^ e\<close> and \<open>(q + 1) * 2 ^ e\<close> of the grid of numbers with \<open>p\<close>
  significant bits, \<open>e\<close> its exponent and \<open>q\<close> its mantissa; \<open>round_bits\<close> picks the nearer
  neighbour of a number, and \<open>sqrt_round\<close> picks the nearer neighbour of the square root
  of a number, found from the integer square root \<open>isqrt\<close>.
\<close>

fun bit_length :: "nat \<Rightarrow> nat" where
  "bit_length n = (if n = 0 then 0 else Suc (bit_length (n div 2)))"

declare bit_length.simps [simp del]

definition exponent :: "nat \<Rightarrow> nat \<Rightarrow> nat" where
  "exponent p s = bit_length s - p"

definition mantissa :: "nat \<Rightarrow> nat \<Rightarrow> nat" where
  "mantissa p s = s div 2 ^ exponent p s"

definition round_bits :: "nat \<Rightarrow> nat \<Rightarrow> nat" where
  "round_bits p n =
     (let e = exponent p n; q = mantissa p n; r = n mod 2 ^ e
      in (if 2 ^ e < 2 * r \<or> (2 * r = 2 ^ e \<and> odd q) then q + 1 else q) * 2 ^ e)"

fun isqrt_aux :: "nat \<Rightarrow> nat \<Rightarrow> nat \<Rightarrow> nat" where
  "isqrt_aux k r n =
     (if k = 0 then r
      else if (r + 2 ^ (k - 1)) ^ 2 \<le> n then isqrt_aux (k - 1) (r + 2 ^ (k - 1)) n
      else isqrt_aux (k - 1) r n)"

declare isqrt_aux.simps [simp del]

definition isqrt :: "nat \<Rightarrow> nat" where
  "isqrt n = isqrt_aux (bit_length n) 0 n"

definition sqrt_round :: "nat \<Rightarrow> nat \<Rightarrow> nat" where
  "sqrt_round p n =
     (let s = isqrt n; e = exponent p s; q = mantissa p s; c = (2 * q + 1) ^ 2 * 4 ^ e
      in (if c < 4 * n \<or> (c = 4 * n \<and> odd q) then q + 1 else q) * 2 ^ e)"

text \<open>The \<open>float32\<close> nearest to an integer: the value of \<^verbatim>\<open>tf.to_float\<close> on it.\<close>

definition float32_of_int :: "int \<Rightarrow> int" where
  "float32_of_int v =
     (if v < 0 then - int (round_bits 24 (nat (- v))) else int (round_bits 24 (nat v)))"

text \<open>
  The \<open>float32\<close> nearest to the square root of a natural number \<open>x\<close>: the root of
  \<open>x * 2 ^ 46\<close>, rounded to 24 bits, is the root of \<open>x\<close> in units of \<open>2 ^ - 23\<close>.
\<close>

definition float32_sqrt :: "nat \<Rightarrow> real" where
  "float32_sqrt x = real (sqrt_round 24 (x * 2 ^ 46)) / 2 ^ 23"

text \<open>
  The number a node yields when the graph runs, for the nodes that \<open>measure_complexity\<close>
  makes: the cast of an integer constant and the square root of such a cast. The square
  root of a negative number is not a number; for any other node this reading has no value.
\<close>

datatype float_value = number real | not_a_number | no_value

fun float32_value :: "tensor \<Rightarrow> float_value" where
  "float32_value (Cast u c) =
     (case constant_value c of
        Some v \<Rightarrow> number (real_of_int (float32_of_int v))
      | None \<Rightarrow> no_value)"
| "float32_value (Sqrt u (Cast u' c)) =
     (case constant_value c of
        Some v \<Rightarrow>
          (if v < 0 then not_a_number else number (float32_sqrt (nat (float32_of_int v))))
      | None \<Rightarrow> no_value)"
| "float32_value t = no_value"

subsection \<open>Python and numpy integers\<close>

text \<open>
  A Python integer is unbounded. A numpy integer has the width of its type, and the sum of
  a numpy integer and the Python integer 1 wraps at the width of the sum's type. Which type
  that is depends on the numpy in use: NumPy 1, where the default integer has 64 bits,
  widens the sum of a signed numpy integer and a Python integer to \<open>int64\<close>; NumPy 2 keeps
  the type of the numpy integer. The rule is a parameter of the model. A value read from a
  \<open>uint64\<close> constant is treated like an \<open>int64\<close> here.
\<close>

datatype promotion = widens_to_int64 | keeps_type

datatype number = py_int int | np_int int

fun int_of :: "number \<Rightarrow> int" where
  "int_of (py_int v) = v"
| "int_of (np_int v) = v"

definition wrap_signed :: "nat \<Rightarrow> int \<Rightarrow> int" where
  "wrap_signed w v = (v + 2 ^ (w - 1)) mod 2 ^ w - 2 ^ (w - 1)"

fun sum_bits :: "promotion \<Rightarrow> int \<Rightarrow> nat" where
  "sum_bits widens_to_int64 v = 64"
| "sum_bits keeps_type v = (if int_dtype v = int32 then 32 else 64)"

fun plus_one :: "promotion \<Rightarrow> number \<Rightarrow> number" where
  "plus_one np (py_int v) = py_int (v + 1)"
| "plus_one np (np_int v) = np_int (wrap_signed (sum_bits np v) (v + 1))"

subsection \<open>The framework's records\<close>

record Subnetwork =
  last_layer :: tensor
  logits :: tensor
  complexity :: tensor
  persisted_tensors :: "string \<rightharpoonup> tensor"

record WeightedSubnetwork =
  subnetwork :: Subnetwork

record Ensemble =
  weighted_subnetworks :: "WeightedSubnetwork list"

subsection \<open>Module constants\<close>


definition NUM_LAYERS_KEY :: string where
  "NUM_LAYERS_KEY = ''num_layers''"

subsection \<open>\<^verbatim>\<open>_SimpleDNNBuilder\<close>\<close>

record 'o SimpleDNNBuilder =
  optimizer :: 'o
  layer_size :: int
  num_layers :: int
  learn_mixture_weights :: bool
  seed :: "int option"

definition SimpleDNNBuilder_init ::
  "'o \<Rightarrow> int \<Rightarrow> int \<Rightarrow> bool \<Rightarrow> int option \<Rightarrow> 'o SimpleDNNBuilder" where
  "SimpleDNNBuilder_init optimizer' layer_size' num_layers' learn_mixture_weights' seed' =
     \<lparr>optimizer = optimizer', layer_size = layer_size', num_layers = num_layers',
      learn_mixture_weights = learn_mixture_weights', seed = seed'\<rparr>"

text \<open>
  \<^verbatim>\<open>_measure_complexity\<close>: \<^verbatim>\<open>tf.sqrt(tf.to_float(self._num_layers))\<close>. The depth is
  converted to a constant, cast and given to the square root: three nodes.
\<close>

definition measure_complexity ::
  "'o SimpleDNNBuilder \<Rightarrow> graph \<Rightarrow> (error + tensor) \<times> 'o SimpleDNNBuilder \<times> graph" where
  "measure_complexity self g =
     (case tf_constant (num_layers self) g of
        (Inl e, g1) \<Rightarrow> (Inl e, self, g1)
      | (Inr c, g1) \<Rightarrow>
          (case tf_to_float c g1 of
             (f, g2) \<Rightarrow> (case tf_sqrt f g2 of (r, g3) \<Rightarrow> (r, self, g3))))"

text \<open>
  The loop \<^verbatim>\<open>for _ in range(self._num_layers): last_layer = tf.layers.dense(...)\<close>,
  by the number of iterations left. \<^verbatim>\<open>range(n)\<close> is empty for \<open>n \<le> 0\<close>.
\<close>

fun hidden_layers ::
  "nat \<Rightarrow> int \<Rightarrow> initializer \<Rightarrow> tensor \<Rightarrow> graph \<Rightarrow> (error + tensor) \<times> graph" where
  "hidden_layers 0 units kernel_initializer layer g = (Inr layer, g)"
| "hidden_layers (Suc n) units kernel_initializer layer g =
     (case tf_layers_dense layer units (Some relu) kernel_initializer g of
        (Inl e, g') \<Rightarrow> (Inl e, g')
      | (Inr layer', g') \<Rightarrow> hidden_layers n units kernel_initializer layer' g')"


text \<open>
  The two train operations are named by the call that makes them; their place in the
  graph is not followed.
\<close>

definition build_subnetwork_train_op ::
  "'o SimpleDNNBuilder \<Rightarrow> Subnetwork \<Rightarrow> tensor \<Rightarrow> tensor list \<Rightarrow> tensor \<Rightarrow> tensor \<Rightarrow> 's \<Rightarrow>
   Ensemble option \<Rightarrow> 'o train_op \<times> 'o SimpleDNNBuilder" where
  "build_subnetwork_train_op self subnetwork' loss var_list labels iteration_step summary
     previous_ensemble =
     (minimize (optimizer self) loss var_list, self)"

definition build_mixture_weights_train_op ::
  "'o SimpleDNNBuilder \<Rightarrow> tensor \<Rightarrow> tensor list \<Rightarrow> tensor \<Rightarrow> tensor \<Rightarrow> tensor \<Rightarrow> 's \<Rightarrow>
   'o train_op \<times> 'o SimpleDNNBuilder" where
  "build_mixture_weights_train_op self loss var_list logits' labels iteration_step summary =
     (if \<not> learn_mixture_weights self then (tf_no_op, self)
      else (minimize (optimizer self) loss var_list, self))"






subsection \<open>\<^verbatim>\<open>SimpleDNNGenerator\<close>\<close>

text \<open>
  \<^verbatim>\<open>functools.partial(_SimpleDNNBuilder, optimizer=..., layer_size=...,
  learn_mixture_weights=...)\<close> stores the three keyword arguments; calling it with the
  remaining two calls the constructor.
\<close>

record 'o builder_partial =
  partial_optimizer :: 'o
  partial_layer_size :: int
  partial_learn_mixture_weights :: bool

definition call_partial :: "'o builder_partial \<Rightarrow> int \<Rightarrow> int option \<Rightarrow> 'o SimpleDNNBuilder" where
  "call_partial p num_layers' seed' =
     SimpleDNNBuilder_init (partial_optimizer p) (partial_layer_size p) num_layers'
       (partial_learn_mixture_weights p) seed'"

record 'o SimpleDNNGenerator =
  generator_seed :: "int option"
  dnn_builder_fn :: "'o builder_partial"

definition SimpleDNNGenerator_init ::
  "'o \<Rightarrow> int \<Rightarrow> bool \<Rightarrow> int option \<Rightarrow> 'o SimpleDNNGenerator" where
  "SimpleDNNGenerator_init optimizer' layer_size' learn_mixture_weights' seed' =
     \<lparr>generator_seed = seed',
      dnn_builder_fn =
        \<lparr>partial_optimizer = optimizer', partial_layer_size = layer_size',
         partial_learn_mixture_weights = learn_mixture_weights'\<rparr>\<rparr>"

text \<open>
  \<^verbatim>\<open>generate_candidates\<close>, under the promotion rule of the numpy in use. \<open>num_layers'\<close> is
  the local variable \<^verbatim>\<open>num_layers\<close>: the Python integer 0, or what \<^verbatim>\<open>constant_value\<close> returned, a numpy
  integer or \<^verbatim>\<open>None\<close>; on \<^verbatim>\<open>None\<close>, \<^verbatim>\<open>num_layers + 1\<close> raises \<^verbatim>\<open>TypeError\<close>.
  \<open>seed0\<close> and \<open>seed1\<close> are the local variable \<^verbatim>\<open>seed\<close> before and after
  \<^verbatim>\<open>seed += iteration_number\<close>. The method calls no TensorFlow function that adds a node.
\<close>

definition generate_candidates ::
  "promotion \<Rightarrow> 'o SimpleDNNGenerator \<Rightarrow> Ensemble option \<Rightarrow> int \<Rightarrow> 'r \<Rightarrow> 'r \<Rightarrow>
   (error + 'o SimpleDNNBuilder list) \<times> 'o SimpleDNNGenerator" where
  "generate_candidates np self previous_ensemble iteration_number previous_ensemble_reports
     all_reports =
     (let seed0 = generator_seed self;
          num_layers' =
            (case previous_ensemble of
               None \<Rightarrow> Inr (Some (py_int 0))
             | Some ens \<Rightarrow>
                 (case last_item (weighted_subnetworks ens) of
                    Inl e \<Rightarrow> Inl e
                  | Inr ws \<Rightarrow>
                      (case getitem (persisted_tensors (subnetwork ws)) NUM_LAYERS_KEY of
                         Inl e \<Rightarrow> Inl e
                       | Inr t \<Rightarrow> Inr (map_option np_int (constant_value t)))));
          seed1 = (case seed0 of None \<Rightarrow> None | Some s \<Rightarrow> Some (s + iteration_number))
      in (case num_layers' of
            Inl e \<Rightarrow> (Inl e, self)
          | Inr None \<Rightarrow> (Inl TypeError, self)
          | Inr (Some n) \<Rightarrow>
              (Inr [call_partial (dnn_builder_fn self) (int_of n) seed1,
                    call_partial (dnn_builder_fn self) (int_of (plus_one np n)) seed1],
               self)))"

subsection \<open>Reading a network and a name back\<close>

text \<open>
  The dense layers that lie between a tensor \<open>base\<close> and a tensor above it: the units and
  activation of each, the lowest first; \<open>None\<close> when the tensor is not a stack of dense
  layers on \<open>base\<close>.
\<close>

fun layers_above :: "tensor \<Rightarrow> tensor \<Rightarrow> (int \<times> activation option) list option" where
  "layers_above base (Dense u t units act k) =
     (if Dense u t units act k = base then Some []
      else map_option (\<lambda>ls. ls @ [(units, act)]) (layers_above base t))"
| "layers_above base t = (if t = base then Some [] else None)"

text \<open>A node without the names the graph gave to it and to the nodes below it.\<close>

fun unnamed :: "tensor \<Rightarrow> tensor" where
  "unnamed (Placeholder s dt) = Placeholder s dt"
| "unnamed (Const u v) = Const 0 v"
| "unnamed (Cast u t) = Cast 0 (unnamed t)"
| "unnamed (Sqrt u t) = Sqrt 0 (unnamed t)"
| "unnamed (Dense u t units act k) = Dense 0 (unnamed t) units act k"




subsection \<open>Sample inputs\<close>

text \<open>
  An ensemble whose only subnetwork is a linear model that persisted the depth \<open>d\<close>, the
  generator of the notebook's \<^verbatim>\<open>train_and_evaluate\<close> (\<^verbatim>\<open>RANDOM_SEED = 42\<close>, the default
  layer size 32), a candidate of depth 2, and features as the input pipeline makes them.
\<close>

definition ensemble_of_depth :: "int \<Rightarrow> Ensemble" where
  "ensemble_of_depth d =
     \<lparr>weighted_subnetworks =
        [\<lparr>subnetwork =
            \<lparr>last_layer = Cast 0 (Placeholder ''features'' float64),
             logits =
               Dense 1 (Cast 0 (Placeholder ''features'' float64)) 1 None
                 (glorot_uniform_initializer (Some 42)),
             complexity = Sqrt 5 (Cast 4 (Const 3 d)),
             persisted_tensors = [NUM_LAYERS_KEY \<mapsto> Const 2 d]\<rparr>\<rparr>]\<rparr>"

definition sample_generator :: "string SimpleDNNGenerator" where
  "sample_generator = SimpleDNNGenerator_init ''RMSProp'' 32 False (Some 42)"

definition sample_builder :: "string SimpleDNNBuilder" where
  "sample_builder = SimpleDNNBuilder_init ''RMSProp'' 32 2 False (Some 43)"


definition too_deep_builder :: "string SimpleDNNBuilder" where
  "too_deep_builder = SimpleDNNBuilder_init ''RMSProp'' 32 18446744073709551616 False (Some 43)"

section \<open>Properties\<close>

subsection \<open>The generator\<close>

lemma num_layers_call_partial [simp]: "num_layers (call_partial p n s) = n"
  by (simp add: call_partial_def SimpleDNNBuilder_init_def)

lemma seed_call_partial [simp]: "seed (call_partial p n s) = s"
  by (simp add: call_partial_def SimpleDNNBuilder_init_def)

lemma generate_candidates_state [simp]: "snd (generate_candidates np self prev i r a) = self"
  by (simp add: generate_candidates_def Let_def split: option.splits sum.splits)

lemma generate_candidates_first:
  "fst (generate_candidates np self None i r a) =
     Inr [call_partial (dnn_builder_fn self) 0 (map_option (\<lambda>s. s + i) (generator_seed self)),
          call_partial (dnn_builder_fn self) 1 (map_option (\<lambda>s. s + i) (generator_seed self))]"
  by (simp add: generate_candidates_def map_option_case Let_def)

lemma generate_candidates_previous:
  assumes "weighted_subnetworks ens \<noteq> []"
    and "persisted_tensors (subnetwork (last (weighted_subnetworks ens))) NUM_LAYERS_KEY = Some t"
    and "constant_value t = Some d"
  shows "fst (generate_candidates np self (Some ens) i r a) =
     Inr [call_partial (dnn_builder_fn self) d (map_option (\<lambda>s. s + i) (generator_seed self)),
          call_partial (dnn_builder_fn self) (wrap_signed (sum_bits np d) (d + 1))
            (map_option (\<lambda>s. s + i) (generator_seed self))]"
  using assms
  by (simp add: generate_candidates_def last_item_def getitem_def map_option_case Let_def)

lemma generate_candidates_result:
  assumes "fst (generate_candidates np self prev i r a) = Inr bs"
  shows "\<exists>d d'. bs =
     [call_partial (dnn_builder_fn self) d (map_option (\<lambda>s. s + i) (generator_seed self)),
      call_partial (dnn_builder_fn self) d'
        (map_option (\<lambda>s. s + i) (generator_seed self))]"
  using assms
  by (auto simp add: generate_candidates_def map_option_case Let_def
      split: option.splits sum.splits)

lemma wrap_signed_32: "- (2 ^ 31) \<le> v \<Longrightarrow> v < 2 ^ 31 \<Longrightarrow> wrap_signed 32 v = v"
  by (simp add: wrap_signed_def)

lemma wrap_signed_64: "- (2 ^ 63) \<le> v \<Longrightarrow> v < 2 ^ 63 \<Longrightarrow> wrap_signed 64 v = v"
  by (simp add: wrap_signed_def)

lemma plus_one_exact:
  assumes "0 \<le> d" and "d < 9223372036854775807"
    and "np = keeps_type \<longrightarrow> d \<noteq> 2147483647"
  shows "wrap_signed (sum_bits np d) (d + 1) = d + 1"
proof (cases np)
  case widens_to_int64
  with assms show ?thesis by (simp add: wrap_signed_64)
next
  case keeps_type
  show ?thesis
  proof (cases "int_dtype d = int32")
    case True
    with assms(1) have "d < 2 ^ 31" by (simp add: int_dtype_def split: if_splits)
    with assms keeps_type True show ?thesis by (simp add: wrap_signed_32)
  next
    case False
    with assms keeps_type show ?thesis by (simp add: wrap_signed_64)
  qed
qed

lemma ensemble_of_depth_nonempty: "weighted_subnetworks (ensemble_of_depth d) \<noteq> []"
  by (simp add: ensemble_of_depth_def)

lemma ensemble_of_depth_persisted:
  "persisted_tensors (subnetwork (last (weighted_subnetworks (ensemble_of_depth d))))
     NUM_LAYERS_KEY = Some (Const 2 d)"
  by (simp add: ensemble_of_depth_def)

text \<open>
  C1, for the depths whose successor the integer type holds. When the most recently added
  subnetwork of the previous ensemble persisted the depth \<open>d\<close> with \<open>0 \<le> d < 2 ^ 63 - 1\<close>,
  and \<open>d \<noteq> 2 ^ 31 - 1\<close> where the sum keeps the type of the depth, then for
  every round index \<open>generate_candidates\<close> returns exactly two candidates, the first of
  depth \<open>d\<close> and the second of depth \<open>d + 1\<close>.
\<close>

theorem generate_candidates_depths:
  assumes "weighted_subnetworks ens \<noteq> []"
    and "persisted_tensors (subnetwork (last (weighted_subnetworks ens))) NUM_LAYERS_KEY =
           Some (Const u d)"
    and "0 \<le> d" and "d < 9223372036854775807"
    and "np = keeps_type \<longrightarrow> d \<noteq> 2147483647"
  shows "\<exists>b1 b2. fst (generate_candidates np self (Some ens) i r a) = Inr [b1, b2] \<and>
           num_layers b1 = d \<and> num_layers b2 = d + 1"
  using generate_candidates_previous [OF assms(1) assms(2), of d np self i r a]
    plus_one_exact [OF assms(3) assms(4) assms(5)]
  by simp

theorem generate_candidates_depths_witness:
  "weighted_subnetworks (ensemble_of_depth 2) \<noteq> [] \<and>
   persisted_tensors (subnetwork (last (weighted_subnetworks (ensemble_of_depth 2))))
     NUM_LAYERS_KEY = Some (Const 2 2) \<and>
   (0::int) \<le> 2 \<and> (2::int) < 9223372036854775807 \<and> (2::int) \<noteq> 2147483647 \<and>
   (\<exists>b1 b2. fst (generate_candidates keeps_type sample_generator (Some (ensemble_of_depth 2)) 3 () ()) =
        Inr [b1, b2] \<and> num_layers b1 = 2 \<and> num_layers b2 = 2 + 1)"
proof -
  have h3: "(0::int) \<le> 2" and h4: "(2::int) < 9223372036854775807"
    and h5: "keeps_type = keeps_type \<longrightarrow> (2::int) \<noteq> 2147483647"
    by simp_all
  show ?thesis
    using ensemble_of_depth_nonempty [of 2] ensemble_of_depth_persisted [of 2] h3 h4
      generate_candidates_depths [OF ensemble_of_depth_nonempty ensemble_of_depth_persisted
        h3 h4 h5, of sample_generator 3 "()" "()"]
    by simp
qed

text \<open>
  Without the bound the statement fails: the second depth is the numpy sum
  \<^verbatim>\<open>num_layers + 1\<close>, which wraps. At the largest \<open>int64\<close> the second candidate has
  depth \<open>- 2 ^ 63\<close>, and where the sum keeps the type of the depth, at the largest \<open>int32\<close>
  it has depth \<open>- 2 ^ 31\<close>.
\<close>

theorem generate_candidates_depths_counterexample:
  "map_sum id (map num_layers)
     (fst (generate_candidates widens_to_int64 sample_generator
        (Some (ensemble_of_depth 9223372036854775807)) 3 () ())) =
     Inr [9223372036854775807, - 9223372036854775808] \<and>
   map_sum id (map num_layers)
     (fst (generate_candidates keeps_type sample_generator
        (Some (ensemble_of_depth 2147483647)) 3 () ())) =
     Inr [2147483647, - 2147483648]"
  by (simp add: generate_candidates_previous [OF ensemble_of_depth_nonempty
        ensemble_of_depth_persisted] wrap_signed_def int_dtype_def)

text \<open>
  C2. Called with no previous ensemble, as in round 0, \<open>generate_candidates\<close> returns two
  candidates of depths 0 and 1.
\<close>

theorem generate_candidates_round0:
  "\<exists>b1 b2. fst (generate_candidates np self None i r a) = Inr [b1, b2] \<and>
           num_layers b1 = 0 \<and> num_layers b2 = 1"
  by (simp add: generate_candidates_first)

lemma generate_candidates_empty:
  "weighted_subnetworks ens = [] \<Longrightarrow>
   fst (generate_candidates np self (Some ens) i r a) = Inl IndexError"
  by (simp add: generate_candidates_def last_item_def Let_def)

lemma generate_candidates_missing_key:
  "weighted_subnetworks ens \<noteq> [] \<Longrightarrow>
   persisted_tensors (subnetwork (last (weighted_subnetworks ens))) NUM_LAYERS_KEY = None \<Longrightarrow>
   fst (generate_candidates np self (Some ens) i r a) = Inl KeyError"
  by (simp add: generate_candidates_def last_item_def getitem_def Let_def)

lemma generate_candidates_no_static_value:
  "weighted_subnetworks ens \<noteq> [] \<Longrightarrow>
   persisted_tensors (subnetwork (last (weighted_subnetworks ens))) NUM_LAYERS_KEY =
     Some (Placeholder s dt) \<Longrightarrow>
   fst (generate_candidates np self (Some ens) i r a) = Inl TypeError"
  by (simp add: generate_candidates_def last_item_def getitem_def Let_def)

text \<open>
  C7. The generator is total where the spec defines it: when the most recently added
  subnetwork persisted a depth \<open>d \<ge> 0\<close>, and also when there is no previous ensemble,
  \<open>generate_candidates\<close> returns a list of candidates, for every round index, and raises
  nothing.
\<close>

theorem generate_candidates_total:
  assumes "weighted_subnetworks ens \<noteq> []"
    and "persisted_tensors (subnetwork (last (weighted_subnetworks ens))) NUM_LAYERS_KEY =
           Some (Const u d)"
    and "0 \<le> d"
  shows "(\<exists>bs. fst (generate_candidates np self (Some ens) i r a) = Inr bs) \<and>
         (\<exists>bs. fst (generate_candidates np self None i r a) = Inr bs)"
  using generate_candidates_previous [OF assms(1) assms(2), of d np self i r a]
  by (simp add: generate_candidates_first)

theorem generate_candidates_total_witness:
  "weighted_subnetworks (ensemble_of_depth 2) \<noteq> [] \<and>
   persisted_tensors (subnetwork (last (weighted_subnetworks (ensemble_of_depth 2))))
     NUM_LAYERS_KEY = Some (Const 2 2) \<and>
   (0::int) \<le> 2 \<and>
   (\<exists>bs. fst (generate_candidates widens_to_int64 sample_generator (Some (ensemble_of_depth 2)) (- 1) () ()) =
      Inr bs) \<and>
   (\<exists>bs. fst (generate_candidates widens_to_int64 sample_generator None (- 1) () ()) = Inr bs)"
proof -
  have h: "(0::int) \<le> 2" by simp
  show ?thesis
    using ensemble_of_depth_nonempty [of 2] ensemble_of_depth_persisted [of 2] h
      generate_candidates_total [OF ensemble_of_depth_nonempty ensemble_of_depth_persisted h,
        of widens_to_int64 sample_generator "- 1" "()" "()"]
    by simp
qed

text \<open>
  C10. Both candidates of a call carry the same seed: none when the generator was constructed
  without a seed, and the constructor's seed plus the round index otherwise. The seed the
  generator stores is the constructor's seed after the call as before it.
\<close>

theorem generate_candidates_seed:
  "generator_seed
     (snd (generate_candidates np (SimpleDNNGenerator_init opt ls lmw sd) prev i r a)) = sd \<and>
   generator_seed (SimpleDNNGenerator_init opt ls lmw sd) = sd \<and>
   (\<forall>bs. fst (generate_candidates np (SimpleDNNGenerator_init opt ls lmw sd) prev i r a) = Inr bs \<longrightarrow>
      length bs = 2 \<and>
      (\<forall>b \<in> set bs.
         (sd = None \<longrightarrow> seed b = None) \<and> (\<forall>s. sd = Some s \<longrightarrow> seed b = Some (s + i))))"
proof (intro conjI allI impI)
  show "generator_seed
      (snd (generate_candidates np (SimpleDNNGenerator_init opt ls lmw sd) prev i r a)) = sd"
    by (simp add: SimpleDNNGenerator_init_def)
  show "generator_seed (SimpleDNNGenerator_init opt ls lmw sd) = sd"
    by (simp add: SimpleDNNGenerator_init_def)
next
  fix bs
  assume "fst (generate_candidates np (SimpleDNNGenerator_init opt ls lmw sd) prev i r a) = Inr bs"
  from generate_candidates_result [OF this]
  obtain d d' where bs: "bs =
     [call_partial (dnn_builder_fn (SimpleDNNGenerator_init opt ls lmw sd)) d
        (map_option (\<lambda>s. s + i) (generator_seed (SimpleDNNGenerator_init opt ls lmw sd))),
      call_partial (dnn_builder_fn (SimpleDNNGenerator_init opt ls lmw sd)) d'
        (map_option (\<lambda>s. s + i) (generator_seed (SimpleDNNGenerator_init opt ls lmw sd)))]"
    by blast
  show "length bs = 2" by (simp add: bs)
  show "\<forall>b \<in> set bs.
         (sd = None \<longrightarrow> seed b = None) \<and> (\<forall>s. sd = Some s \<longrightarrow> seed b = Some (s + i))"
    by (simp add: bs SimpleDNNGenerator_init_def)
qed

theorem generate_candidates_seed_witness:
  "fst (generate_candidates widens_to_int64 sample_generator (Some (ensemble_of_depth 2)) 3 () ()) =
     Inr [SimpleDNNBuilder_init ''RMSProp'' 32 2 False (Some 45),
          SimpleDNNBuilder_init ''RMSProp'' 32 3 False (Some 45)] \<and>
   seed (SimpleDNNBuilder_init ''RMSProp'' 32 2 False (Some 45)) = Some (42 + 3) \<and>
   seed (SimpleDNNBuilder_init ''RMSProp'' 32 3 False (Some 45)) = Some (42 + 3) \<and>
   generator_seed
     (snd (generate_candidates widens_to_int64 sample_generator (Some (ensemble_of_depth 2)) 3 () ())) =
     Some 42"
proof -
  have e: "fst (generate_candidates widens_to_int64 sample_generator (Some (ensemble_of_depth 2)) 3 () ()) =
     Inr [SimpleDNNBuilder_init ''RMSProp'' 32 2 False (Some 45),
          SimpleDNNBuilder_init ''RMSProp'' 32 3 False (Some 45)]"
    by (simp add: generate_candidates_previous [OF ensemble_of_depth_nonempty
          ensemble_of_depth_persisted]
        sample_generator_def SimpleDNNGenerator_init_def call_partial_def wrap_signed_def)
  show ?thesis
    using e generate_candidates_seed [of widens_to_int64 "''RMSProp''" 32 False "Some 42"
        "Some (ensemble_of_depth 2)" 3 "()" "()"]
    unfolding sample_generator_def [symmetric]
    by simp
qed

subsection \<open>The complexity measure and the graph\<close>

lemma int_dtype_not_float32 [simp]: "int_dtype v \<noteq> float32"
  by (simp add: int_dtype_def)

lemma measure_complexity_result:
  assumes "- (2 ^ 63) \<le> num_layers self" and "num_layers self < 2 ^ 64"
  shows "measure_complexity self g =
     (Inr (Sqrt (length g + 2) (Cast (length g + 1) (Const (length g) (num_layers self)))),
      self,
      g @ [Const (length g) (num_layers self),
           Cast (length g + 1) (Const (length g) (num_layers self)),
           Sqrt (length g + 2) (Cast (length g + 1) (Const (length g) (num_layers self)))])"
  using assms
  by (simp add: measure_complexity_def tf_constant_def tf_to_float_def tf_sqrt_def new_node_def)

lemma measure_complexity_too_large:
  assumes "2 ^ 64 \<le> num_layers self"
  shows "measure_complexity self g = (Inl TypeError, self, g)"
  using assms by (simp add: measure_complexity_def tf_constant_def)


lemma measure_complexity_builder [simp]: "fst (snd (measure_complexity self g)) = self"
  by (simp add: measure_complexity_def split: prod.splits sum.splits)

lemma num_layers_init [simp]: "num_layers (SimpleDNNBuilder_init opt ls d lmw sd) = d"
  by (simp add: SimpleDNNBuilder_init_def)

subsection \<open>Rounding to \<open>float32\<close>\<close>

lemma bit_length_0 [simp]: "bit_length 0 = 0"
  by (simp add: bit_length.simps)

lemma bit_length_bounds: "0 < n \<Longrightarrow> 2 ^ (bit_length n - 1) \<le> n \<and> n < 2 ^ bit_length n"
proof (induction n rule: bit_length.induct)
  case (1 n)
  show ?case
  proof (cases "n div 2 = 0")
    case True
    with 1(2) have "n = 1" by (auto simp: div_eq_0_iff)
    then show ?thesis by (simp add: bit_length.simps [of "Suc 0"])
  next
    case False
    with 1 have ih: "2 ^ (bit_length (n div 2) - 1) \<le> n div 2" "n div 2 < 2 ^ bit_length (n div 2)"
      by auto
    have b: "bit_length n = Suc (bit_length (n div 2))"
      using 1(2) by (simp add: bit_length.simps [of n])
    have p: "0 < bit_length (n div 2)"
      using False by (simp add: bit_length.simps [of "n div 2"])
    then have "2 ^ bit_length (n div 2) = 2 * (2::nat) ^ (bit_length (n div 2) - 1)"
      by (cases "bit_length (n div 2)") auto
    with ih show ?thesis unfolding b by (simp, linarith)
  qed
qed

lemma bit_length_less: "n < 2 ^ bit_length n"
  using bit_length_bounds [of n] by (cases "n = 0") simp_all

lemma bit_length_le: "n < 2 ^ k \<Longrightarrow> bit_length n \<le> k"
proof (rule ccontr)
  assume n: "n < 2 ^ k" and "\<not> bit_length n \<le> k"
  then have k: "k \<le> bit_length n - 1" and "0 < bit_length n" by auto
  then have "0 < n" by (cases "n = 0") auto
  then have "2 ^ (bit_length n - 1) \<le> n" using bit_length_bounds [of n] by simp
  moreover have "(2::nat) ^ k \<le> 2 ^ (bit_length n - 1)" using k by simp
  ultimately show False using n by linarith
qed

lemma bit_length_gt: "2 ^ k \<le> n \<Longrightarrow> k < bit_length n"
proof (rule ccontr)
  assume n: "2 ^ k \<le> n" and "\<not> k < bit_length n"
  then have "(2::nat) ^ bit_length n \<le> 2 ^ k" by simp
  with bit_length_less [of n] n show False by linarith
qed

lemma bit_length_mono: "n \<le> m \<Longrightarrow> bit_length n \<le> bit_length m"
  using bit_length_le [of n "bit_length m"] bit_length_less [of m] by simp

lemma isqrt_aux_correct:
  "r ^ 2 \<le> n \<Longrightarrow> n < (r + 2 ^ k) ^ 2 \<Longrightarrow>
   (isqrt_aux k r n) ^ 2 \<le> n \<and> n < (isqrt_aux k r n + 1) ^ 2"
proof (induction k arbitrary: r)
  case 0
  then show ?case by (simp add: isqrt_aux.simps [of 0])
next
  case (Suc k)
  show ?case
  proof (cases "(r + 2 ^ k) ^ 2 \<le> n")
    case True
    have "n < (r + 2 ^ k + 2 ^ k) ^ 2" using Suc.prems(2) by (simp add: add.assoc mult_2)
    from Suc.IH [OF True this] True show ?thesis
      by (simp add: isqrt_aux.simps [of "Suc k"])
  next
    case False
    then have "n < (r + 2 ^ k) ^ 2" by simp
    from Suc.IH [OF Suc.prems(1) this] False show ?thesis
      by (simp add: isqrt_aux.simps [of "Suc k"])
  qed
qed

lemma isqrt_correct: "(isqrt n) ^ 2 \<le> n \<and> n < (isqrt n + 1) ^ 2"
proof -
  have "n < 2 ^ bit_length n" by (rule bit_length_less)
  also have "(2::nat) ^ bit_length n \<le> (2 ^ bit_length n) ^ 2"
    by (simp add: power2_nat_le_imp_le self_le_power)
  finally have "n < (0 + 2 ^ bit_length n) ^ 2" by simp
  with isqrt_aux_correct [of 0 n "bit_length n"] show ?thesis
    by (simp add: isqrt_def)
qed

lemma isqrt_unique:
  assumes "k ^ 2 \<le> n" and "n < (k + 1) ^ 2"
  shows "isqrt n = k"
proof -
  have a: "(isqrt n) ^ 2 \<le> n" and b: "n < (isqrt n + 1) ^ 2"
    using isqrt_correct [of n] by simp_all
  have "k ^ 2 < (isqrt n + 1) ^ 2" using assms(1) b by linarith
  then have "k < isqrt n + 1" by (rule power_less_imp_less_base) simp
  moreover have "(isqrt n) ^ 2 < (k + 1) ^ 2" using a assms(2) by linarith
  then have "isqrt n < k + 1" by (rule power_less_imp_less_base) simp
  ultimately show ?thesis by linarith
qed

lemma isqrt_mono:
  assumes "n \<le> m"
  shows "isqrt n \<le> isqrt m"
proof (rule ccontr)
  assume "\<not> isqrt n \<le> isqrt m"
  then have "isqrt m + 1 \<le> isqrt n" by simp
  then have "(isqrt m + 1) ^ 2 \<le> (isqrt n) ^ 2" by (rule power_mono) simp
  with isqrt_correct [of n] isqrt_correct [of m] assms show False by linarith
qed

lemma isqrt_square [simp]: "isqrt (k ^ 2) = k"
  by (rule isqrt_unique) (simp_all add: power2_eq_square)

lemma isqrt_sqrt: "real (isqrt n) \<le> sqrt (real n) \<and> sqrt (real n) < real (isqrt n) + 1"
proof
  have "(real (isqrt n)) ^ 2 \<le> real n"
    using isqrt_correct [of n] by (metis of_nat_le_iff of_nat_power)
  then show "real (isqrt n) \<le> sqrt (real n)"
    by (rule real_le_rsqrt)
  have "real n < (real (isqrt n) + 1) ^ 2"
    using isqrt_correct [of n] by (metis of_nat_less_iff of_nat_power of_nat_add of_nat_1)
  then show "sqrt (real n) < real (isqrt n) + 1"
    by (rule real_less_lsqrt [rotated]) simp
qed

text \<open>The grid of numbers with \<open>p\<close> significant bits.\<close>

lemma grid_bounds:
  "mantissa p s * 2 ^ exponent p s \<le> s \<and> s < (mantissa p s + 1) * 2 ^ exponent p s"
proof -
  have "s div 2 ^ exponent p s * 2 ^ exponent p s \<le> s" by simp
  moreover have "s < (s div 2 ^ exponent p s + 1) * 2 ^ exponent p s"
    using dividend_less_div_times [of "2 ^ exponent p s" s] by (simp add: mult.commute)
  ultimately show ?thesis by (simp add: mantissa_def)
qed

lemma mantissa_less: "mantissa p s < 2 ^ p"
proof -
  have "bit_length s \<le> p + exponent p s" by (simp add: exponent_def)
  then have "(2::nat) ^ bit_length s \<le> 2 ^ (p + exponent p s)" by simp
  with bit_length_less [of s] have "s < 2 ^ p * 2 ^ exponent p s"
    by (simp add: power_add)
  then show ?thesis
    by (simp add: mantissa_def less_mult_imp_div_less)
qed

lemma mantissa_ge:
  assumes "0 < p" and "0 < exponent p s"
  shows "2 ^ (p - 1) \<le> mantissa p s"
proof -
  from assms(2) have b: "bit_length s = p + exponent p s" by (simp add: exponent_def)
  with assms have "0 < s" by (cases "s = 0") auto
  then have "2 ^ (bit_length s - 1) \<le> s" using bit_length_bounds [of s] by simp
  moreover have "bit_length s - 1 = (p - 1) + exponent p s" using b assms(1) by simp
  ultimately have "2 ^ (p - 1) * 2 ^ exponent p s \<le> s" by (simp add: power_add)
  then have "2 ^ (p - 1) * 2 ^ exponent p s div 2 ^ exponent p s \<le> s div 2 ^ exponent p s"
    by (rule div_le_mono)
  then show ?thesis by (simp add: mantissa_def)
qed

lemma exponent_mono: "s \<le> s' \<Longrightarrow> exponent p s \<le> exponent p s'"
  by (simp add: exponent_def bit_length_mono diff_le_mono)

lemma grid_mono:
  assumes p: "0 < p" and s: "s \<le> s'"
    and u: "exponent p s = exponent p s' \<Longrightarrow> mantissa p s = mantissa p s' \<Longrightarrow> up \<Longrightarrow> up'"
  shows "(if up then mantissa p s + 1 else mantissa p s) * 2 ^ exponent p s \<le>
         (if up' then mantissa p s' + 1 else mantissa p s') * 2 ^ exponent p s'"
proof (cases "exponent p s = exponent p s'")
  case True
  have q: "mantissa p s \<le> mantissa p s'"
    using s True by (simp add: mantissa_def div_le_mono)
  show ?thesis
  proof (cases "mantissa p s = mantissa p s'")
    case True
    with \<open>exponent p s = exponent p s'\<close> u show ?thesis by auto
  next
    case False
    with q have "mantissa p s + 1 \<le> mantissa p s'" by simp
    then have "(if up then mantissa p s + 1 else mantissa p s) \<le>
        (if up' then mantissa p s' + 1 else mantissa p s')" by simp
    then show ?thesis unfolding True by (rule mult_le_mono1)
  qed
next
  case False
  with exponent_mono [OF s, of p] have lt: "exponent p s < exponent p s'" by simp
  then have pos: "0 < exponent p s'" by simp
  have "(if up then mantissa p s + 1 else mantissa p s) \<le> 2 ^ p"
    using mantissa_less [of p s] by simp
  then have "(if up then mantissa p s + 1 else mantissa p s) * 2 ^ exponent p s \<le>
      2 ^ p * 2 ^ exponent p s" by (rule mult_le_mono1)
  also have "\<dots> = 2 ^ (p + exponent p s)" by (simp add: power_add)
  also have "\<dots> \<le> 2 ^ ((p - 1) + exponent p s')"
    using lt p by (intro power_increasing) simp_all
  also have "\<dots> = 2 ^ (p - 1) * 2 ^ exponent p s'" by (simp add: power_add)
  also have "\<dots> \<le> mantissa p s' * 2 ^ exponent p s'"
    using mantissa_ge [OF p pos] by (rule mult_le_mono1)
  also have "\<dots> \<le> (if up' then mantissa p s' + 1 else mantissa p s') * 2 ^ exponent p s'"
    by (intro mult_le_mono1) simp
  finally show ?thesis .
qed

lemma mod_eq_diff: "(n::nat) mod m = n - n div m * m"
  by (simp add: minus_div_mult_eq_mod)

lemma round_bits_mono:
  assumes "0 < p" and "n \<le> m"
  shows "round_bits p n \<le> round_bits p m"
  unfolding round_bits_def Let_def
proof (rule grid_mono [OF assms])
  assume e: "exponent p n = exponent p m" and q: "mantissa p n = mantissa p m"
    and up: "2 ^ exponent p n < 2 * (n mod 2 ^ exponent p n) \<or>
       2 * (n mod 2 ^ exponent p n) = 2 ^ exponent p n \<and> odd (mantissa p n)"
  have "n mod 2 ^ exponent p n = n - mantissa p n * 2 ^ exponent p n"
    by (simp add: mod_eq_diff mantissa_def)
  moreover have "m mod 2 ^ exponent p m = m - mantissa p n * 2 ^ exponent p n"
    using e q by (simp add: mod_eq_diff mantissa_def)
  ultimately have "n mod 2 ^ exponent p n \<le> m mod 2 ^ exponent p m"
    using assms(2) by simp
  with up e q show "2 ^ exponent p m < 2 * (m mod 2 ^ exponent p m) \<or>
       2 * (m mod 2 ^ exponent p m) = 2 ^ exponent p m \<and> odd (mantissa p m)"
    by auto
qed

lemma sqrt_round_mono:
  assumes "0 < p" and "n \<le> m"
  shows "sqrt_round p n \<le> sqrt_round p m"
  unfolding sqrt_round_def Let_def
proof (rule grid_mono [OF assms(1) isqrt_mono [OF assms(2)]])
  assume e: "exponent p (isqrt n) = exponent p (isqrt m)"
    and q: "mantissa p (isqrt n) = mantissa p (isqrt m)"
    and up: "(2 * mantissa p (isqrt n) + 1)\<^sup>2 * 4 ^ exponent p (isqrt n) < 4 * n \<or>
       (2 * mantissa p (isqrt n) + 1)\<^sup>2 * 4 ^ exponent p (isqrt n) = 4 * n \<and>
       odd (mantissa p (isqrt n))"
  with assms(2) show "(2 * mantissa p (isqrt m) + 1)\<^sup>2 * 4 ^ exponent p (isqrt m) < 4 * m \<or>
       (2 * mantissa p (isqrt m) + 1)\<^sup>2 * 4 ^ exponent p (isqrt m) = 4 * m \<and>
       odd (mantissa p (isqrt m))"
    by auto
qed

lemma round_bits_exact:
  assumes "n < 2 ^ p"
  shows "round_bits p n = n"
proof -
  have "exponent p n = 0" using bit_length_le [OF assms] by (simp add: exponent_def)
  then show ?thesis by (simp add: round_bits_def mantissa_def Let_def)
qed

lemma round_bits_error: "2 * \<bar>real (round_bits p n) - real n\<bar> \<le> 2 ^ exponent p n"
proof -
  define e where "e = exponent p n"
  define q where "q = mantissa p n"
  define r where "r = n mod 2 ^ e"
  have n: "n = q * 2 ^ e + r"
    unfolding q_def r_def mantissa_def e_def [symmetric] by (rule div_mult_mod_eq [symmetric])
  have rn: "real n = real q * 2 ^ e + real r"
    by (subst n) simp
  show ?thesis
  proof (cases "2 ^ e < 2 * r \<or> (2 * r = 2 ^ e \<and> odd q)")
    case True
    then have "round_bits p n = (q + 1) * 2 ^ e"
      by (simp add: round_bits_def Let_def e_def q_def r_def)
    moreover have "2 ^ e \<le> 2 * r" using True by auto
    then have "real (2 ^ e) \<le> real (2 * r)" by (rule of_nat_mono)
    then have "(2::real) ^ e \<le> 2 * real r" by simp
    moreover have "r < 2 ^ e" by (simp add: r_def)
    then have "real r < real (2 ^ e)" by (simp only: of_nat_less_iff)
    then have "real r < 2 ^ e" by simp
    ultimately show ?thesis unfolding e_def [symmetric] rn
      by (simp add: algebra_simps)
  next
    case False
    then have "round_bits p n = q * 2 ^ e"
      by (simp add: round_bits_def Let_def e_def q_def r_def)
    moreover have "2 * r \<le> 2 ^ e" using False by auto
    then have "real (2 * r) \<le> real (2 ^ e)" by (rule of_nat_mono)
    then have "2 * real r \<le> 2 ^ e" by simp
    ultimately show ?thesis unfolding e_def [symmetric] rn
      by (simp add: algebra_simps)
  qed
qed

lemma grid_lower:
  assumes "0 < p" and "0 < exponent p s \<or> 2 ^ (p - 1) \<le> s"
  shows "2 ^ (p - 1) * 2 ^ exponent p s \<le> s"
proof (cases "0 < exponent p s")
  case True
  from mantissa_ge [OF assms(1) True]
  have "2 ^ (p - 1) * 2 ^ exponent p s \<le> mantissa p s * 2 ^ exponent p s"
    by (rule mult_le_mono1)
  with grid_bounds [of p s] show ?thesis by linarith
next
  case False
  with assms(2) show ?thesis by simp
qed

lemma half_ulp:
  assumes "0 < p" and "2 ^ (p - 1) * 2 ^ e \<le> (y::real)"
  shows "2 ^ e / 2 \<le> y / 2 ^ p"
proof -
  from assms(1) have "(2::real) ^ p = 2 * 2 ^ (p - 1)"
    by (cases p) simp_all
  then have "(2::real) ^ e / 2 = 2 ^ (p - 1) * 2 ^ e / 2 ^ p" by simp
  also have "\<dots> \<le> y / 2 ^ p" using assms(2) by (simp add: divide_right_mono)
  finally show ?thesis .
qed

lemma round_bits_relative:
  assumes "0 < p"
  shows "\<bar>real (round_bits p n) - real n\<bar> \<le> real n / 2 ^ p"
proof (cases "0 < exponent p n")
  case True
  from grid_lower [OF assms, of n] True have "2 ^ (p - 1) * 2 ^ exponent p n \<le> n" by simp
  then have "real (2 ^ (p - 1) * 2 ^ exponent p n) \<le> real n" by (rule of_nat_mono)
  then have lower: "(2::real) ^ (p - 1) * 2 ^ exponent p n \<le> real n" by simp
  from round_bits_error [of p n]
  have "\<bar>real (round_bits p n) - real n\<bar> \<le> 2 ^ exponent p n / 2" by simp
  then show ?thesis using half_ulp [OF assms lower] by (rule order_trans)
next
  case False
  then have "bit_length n \<le> p" by (simp add: exponent_def)
  then have "(2::nat) ^ bit_length n \<le> 2 ^ p" by simp
  with bit_length_less [of n] have "n < 2 ^ p" by linarith
  then show ?thesis by (simp add: round_bits_exact)
qed

lemma sqrt_round_error:
  "2 * \<bar>real (sqrt_round p n) - sqrt (real n)\<bar> \<le> 2 ^ exponent p (isqrt n)"
proof -
  define s where "s = isqrt n"
  define e where "e = exponent p s"
  define q where "q = mantissa p s"
  define y where "y = sqrt (real n)"
  have y0: "0 \<le> y" by (simp add: y_def)
  have "q * 2 ^ e \<le> s" and "s + 1 \<le> (q + 1) * 2 ^ e"
    using grid_bounds [of p s] by (simp_all add: q_def e_def)
  then have "real (q * 2 ^ e) \<le> real s" and "real (s + 1) \<le> real ((q + 1) * 2 ^ e)"
    by (simp_all only: of_nat_le_iff)
  then have "real q * 2 ^ e \<le> real s" and "real s + 1 \<le> (real q + 1) * 2 ^ e"
    by (simp_all add: algebra_simps)
  with isqrt_sqrt [of n] have lo: "real q * 2 ^ e \<le> y" and hi: "y < (real q + 1) * 2 ^ e"
    by (simp_all add: s_def y_def)
  have four: "(4::real) ^ e = (2 ^ e)\<^sup>2"
    by (simp add: power2_eq_square flip: power_mult_distrib)
  have c: "real ((2 * q + 1) ^ 2 * 4 ^ e) = ((2 * real q + 1) * 2 ^ e) ^ 2"
    by (simp add: power_mult_distrib four add.commute)
  have n4: "real (4 * n) = (2 * y) ^ 2"
    by (simp add: y_def power_mult_distrib)
  have m0: "0 \<le> (2 * real q + 1) * (2::real) ^ e" by simp
  show ?thesis
  proof (cases "(2 * q + 1) ^ 2 * 4 ^ e < 4 * n \<or> ((2 * q + 1) ^ 2 * 4 ^ e = 4 * n \<and> odd q)")
    case True
    then have R: "sqrt_round p n = (q + 1) * 2 ^ e"
      by (simp add: sqrt_round_def Let_def s_def e_def q_def)
    from True have "(2 * q + 1) ^ 2 * 4 ^ e \<le> 4 * n" by auto
    then have "real ((2 * q + 1) ^ 2 * 4 ^ e) \<le> real (4 * n)" by (rule of_nat_mono)
    then have "((2 * real q + 1) * 2 ^ e) ^ 2 \<le> (2 * y) ^ 2" unfolding c n4 .
    then have "(2 * real q + 1) * 2 ^ e \<le> 2 * y"
      by (rule power2_le_imp_le) (use y0 in simp)
    with hi show ?thesis unfolding R s_def [symmetric] e_def [symmetric] y_def [symmetric]
      by (simp add: algebra_simps)
  next
    case False
    then have R: "sqrt_round p n = q * 2 ^ e"
      by (simp add: sqrt_round_def Let_def s_def e_def q_def)
    from False have "4 * n \<le> (2 * q + 1) ^ 2 * 4 ^ e" by auto
    then have "real (4 * n) \<le> real ((2 * q + 1) ^ 2 * 4 ^ e)" by (rule of_nat_mono)
    then have "(2 * y) ^ 2 \<le> ((2 * real q + 1) * 2 ^ e) ^ 2" unfolding c n4 .
    then have "2 * y \<le> (2 * real q + 1) * 2 ^ e"
      by (rule power2_le_imp_le) (use m0 in simp)
    with lo show ?thesis unfolding R s_def [symmetric] e_def [symmetric] y_def [symmetric]
      by (simp add: algebra_simps)
  qed
qed

lemma sqrt_round_relative:
  assumes "0 < p" and "2 ^ (p - 1) \<le> isqrt n"
  shows "\<bar>real (sqrt_round p n) - sqrt (real n)\<bar> \<le> sqrt (real n) / 2 ^ p"
proof -
  from grid_lower [OF assms(1), of "isqrt n"] assms(2)
  have "2 ^ (p - 1) * 2 ^ exponent p (isqrt n) \<le> isqrt n" by simp
  then have "real (2 ^ (p - 1) * 2 ^ exponent p (isqrt n)) \<le> real (isqrt n)"
    by (rule of_nat_mono)
  then have "(2::real) ^ (p - 1) * 2 ^ exponent p (isqrt n) \<le> real (isqrt n)" by simp
  with isqrt_sqrt [of n]
  have lower: "(2::real) ^ (p - 1) * 2 ^ exponent p (isqrt n) \<le> sqrt (real n)" by linarith
  from sqrt_round_error [of p n]
  have "\<bar>real (sqrt_round p n) - sqrt (real n)\<bar> \<le> 2 ^ exponent p (isqrt n) / 2" by simp
  then show ?thesis using half_ulp [OF assms(1) lower] by (rule order_trans)
qed

lemma float32_of_int_nonneg: "0 \<le> d \<Longrightarrow> float32_of_int d = int (round_bits 24 (nat d))"
  by (simp add: float32_of_int_def)

lemma float32_of_int_exact:
  assumes "0 \<le> d" and "d < 2 ^ 24"
  shows "float32_of_int d = d"
proof -
  from assms have "nat d < 2 ^ 24" by (simp add: nat_less_iff)
  then show ?thesis using assms(1) by (simp add: float32_of_int_nonneg round_bits_exact)
qed

lemma float32_of_int_relative:
  assumes "0 \<le> d"
  shows "\<bar>real_of_int (float32_of_int d) - real_of_int d\<bar> \<le> real_of_int d / 2 ^ 24"
proof -
  have "\<bar>real (round_bits 24 (nat d)) - real (nat d)\<bar> \<le> real (nat d) / 2 ^ 24"
    by (rule round_bits_relative) simp
  moreover have "real (nat d) = real_of_int d" using assms by simp
  ultimately show ?thesis using assms by (simp add: float32_of_int_nonneg)
qed

lemma float32_of_int_mono:
  assumes "0 \<le> d" and "d \<le> d'"
  shows "float32_of_int d \<le> float32_of_int d'"
proof -
  from assms have "nat d \<le> nat d'" by simp
  then have "round_bits 24 (nat d) \<le> round_bits 24 (nat d')"
    by (intro round_bits_mono) simp_all
  with assms show ?thesis by (simp add: float32_of_int_nonneg)
qed

lemma float32_sqrt_mono:
  assumes "x \<le> x'"
  shows "float32_sqrt x \<le> float32_sqrt x'"
proof -
  from assms have "x * 2 ^ 46 \<le> x' * 2 ^ 46" by simp
  then have "sqrt_round 24 (x * 2 ^ 46) \<le> sqrt_round 24 (x' * 2 ^ 46)"
    by (intro sqrt_round_mono) simp_all
  then have "real (sqrt_round 24 (x * 2 ^ 46)) \<le> real (sqrt_round 24 (x' * 2 ^ 46))"
    by (rule of_nat_mono)
  then show ?thesis by (simp add: float32_sqrt_def divide_right_mono)
qed

lemma isqrt_0 [simp]: "isqrt 0 = 0"
  by (rule isqrt_unique) simp_all

lemma float32_sqrt_0: "float32_sqrt 0 = 0"
  by (simp add: float32_sqrt_def sqrt_round_def exponent_def mantissa_def Let_def)

lemma sqrt_scaled: "sqrt (real (x * 2 ^ 46)) = sqrt (real x) * 2 ^ 23"
proof -
  have "sqrt ((2::real) ^ 46) = 2 ^ 23"
    by (rule real_sqrt_unique) simp_all
  then show ?thesis by (simp add: real_sqrt_mult)
qed

lemma float32_sqrt_relative:
  "\<bar>float32_sqrt x - sqrt (real x)\<bar> \<le> sqrt (real x) / 2 ^ 24"
proof (cases "x = 0")
  case True
  then show ?thesis by (simp add: float32_sqrt_0)
next
  case False
  then have "(2 ^ 23) ^ 2 \<le> x * 2 ^ 46" by simp
  from isqrt_mono [OF this] have "2 ^ 23 \<le> isqrt (x * 2 ^ 46)"
    by (simp only: isqrt_square)
  then have "2 ^ (24 - 1) \<le> isqrt (x * 2 ^ 46)" by simp
  then have "\<bar>real (sqrt_round 24 (x * 2 ^ 46)) - sqrt (real (x * 2 ^ 46))\<bar> \<le>
      sqrt (real (x * 2 ^ 46)) / 2 ^ 24"
    by (intro sqrt_round_relative) simp_all
  then have b: "\<bar>real (sqrt_round 24 (x * 2 ^ 46)) - sqrt (real x) * 2 ^ 23\<bar> \<le>
      sqrt (real x) * 2 ^ 23 / 2 ^ 24"
    unfolding sqrt_scaled .
  have "real (sqrt_round 24 (x * 2 ^ 46)) - sqrt (real x) * 2 ^ 23 =
      (float32_sqrt x - sqrt (real x)) * 2 ^ 23"
    by (simp add: float32_sqrt_def algebra_simps)
  then have "\<bar>real (sqrt_round 24 (x * 2 ^ 46)) - sqrt (real x) * 2 ^ 23\<bar> =
      \<bar>float32_sqrt x - sqrt (real x)\<bar> * 2 ^ 23"
    by (simp only: abs_mult) simp
  with b have "\<bar>float32_sqrt x - sqrt (real x)\<bar> * 2 ^ 23 \<le> sqrt (real x) * 2 ^ 23 / 2 ^ 24"
    by simp
  then show ?thesis by simp
qed

lemma float32_sqrt_1: "float32_sqrt 1 = 1"
proof -
  have i: "isqrt (2 ^ 46) = 2 ^ 23"
    using isqrt_square [of "2 ^ 23"] by simp
  have b: "bit_length 8388608 = 24" by (simp add: bit_length.simps)
  show ?thesis
    using i by (simp add: float32_sqrt_def sqrt_round_def exponent_def mantissa_def Let_def b)
qed

lemma float32_sqrt_4: "float32_sqrt 4 = 2"
proof -
  have i: "isqrt (4 * 2 ^ 46) = 2 ^ 24"
    using isqrt_square [of "2 ^ 24"] by simp
  have b: "bit_length 16777216 = 25" by (simp add: bit_length.simps)
  show ?thesis
    using i by (simp add: float32_sqrt_def sqrt_round_def exponent_def mantissa_def Let_def b)
qed

lemma float32_sqrt_2: "float32_sqrt 2 = 11863283 / 8388608"
proof -
  have i: "isqrt (2 * 2 ^ 46) = 11863283"
    by (rule isqrt_unique) simp_all
  have b: "bit_length 11863283 = 24" by (simp add: bit_length.simps)
  show ?thesis
    using i by (simp add: float32_sqrt_def sqrt_round_def exponent_def mantissa_def Let_def b)
qed

lemma float32_of_int_16777217: "float32_of_int 16777217 = 16777216"
proof -
  have b: "bit_length 16777217 = 25" by (simp add: bit_length.simps)
  show ?thesis
    by (simp add: float32_of_int_def round_bits_def exponent_def mantissa_def Let_def b)
qed

lemma float32_of_int_16777216: "float32_of_int 16777216 = 16777216"
proof -
  have b: "bit_length 16777216 = 25" by (simp add: bit_length.simps)
  show ?thesis
    by (simp add: float32_of_int_def round_bits_def exponent_def mantissa_def Let_def b)
qed

lemma float32_sqrt_16777216: "float32_sqrt 16777216 = 4096"
proof -
  have i: "isqrt (16777216 * 2 ^ 46) = 2 ^ 35"
    using isqrt_square [of "2 ^ 35"] by simp
  have b: "bit_length 34359738368 = 36" by (simp add: bit_length.simps)
  show ?thesis
    using i by (simp add: float32_sqrt_def sqrt_round_def exponent_def mantissa_def Let_def b)
qed

subsection \<open>The complexity score\<close>

text \<open>
  C3, in \<open>float32\<close>. For a builder constructed with a depth \<open>0 \<le> d < 2 ^ 64\<close>,
  \<open>measure_complexity\<close> returns the node \<^verbatim>\<open>sqrt(to_float(d))\<close>. Its value is the square root
  of \<open>d\<close> as \<open>float32\<close> computes it: within a relative error of \<open>2 ^ - 24\<close> of the real
  square root of the \<open>float32\<close> nearest to \<open>d\<close>, which is \<open>d\<close> itself below \<open>2 ^ 24\<close> and
  within a relative error of \<open>2 ^ - 24\<close> of \<open>d\<close> always; it is 0 at depth 0, 1 at depth 1 and
  2 at depth 4. The builder is the same after the call, and the call adds three nodes to
  the default graph, the last of them the node it returns.
\<close>

theorem measure_complexity_sqrt:
  assumes "0 \<le> d" and "d < 2 ^ 64"
  shows "\<exists>t r. fst (measure_complexity (SimpleDNNBuilder_init opt ls d lmw sd) g) = Inr t \<and>
           unnamed t = Sqrt 0 (Cast 0 (Const 0 d)) \<and>
           float32_value t = number r \<and>
           \<bar>r - sqrt (real_of_int (float32_of_int d))\<bar> \<le>
             sqrt (real_of_int (float32_of_int d)) / 2 ^ 24 \<and>
           \<bar>real_of_int (float32_of_int d) - real_of_int d\<bar> \<le> real_of_int d / 2 ^ 24 \<and>
           (d < 2 ^ 24 \<longrightarrow> float32_of_int d = d) \<and>
           (d = 0 \<longrightarrow> r = 0) \<and> (d = 1 \<longrightarrow> r = 1) \<and> (d = 4 \<longrightarrow> r = 2) \<and>
           fst (snd (measure_complexity (SimpleDNNBuilder_init opt ls d lmw sd) g)) =
             SimpleDNNBuilder_init opt ls d lmw sd \<and>
           (\<exists>c f. snd (snd (measure_complexity (SimpleDNNBuilder_init opt ls d lmw sd) g)) =
              g @ [c, f, t])"
proof -
  let ?b = "SimpleDNNBuilder_init opt ls d lmw sd"
  let ?t = "Sqrt (length g + 2) (Cast (length g + 1) (Const (length g) d))"
  let ?x = "float32_of_int d"
  have m: "measure_complexity ?b g =
      (Inr ?t, ?b, g @ [Const (length g) d, Cast (length g + 1) (Const (length g) d), ?t])"
    using assms measure_complexity_result [of ?b g] by simp
  have x0: "0 \<le> ?x" using assms(1) by (simp add: float32_of_int_nonneg)
  have v: "float32_value ?t = number (float32_sqrt (nat ?x))"
    using assms(1) by simp
  have e: "\<bar>float32_sqrt (nat ?x) - sqrt (real_of_int ?x)\<bar> \<le> sqrt (real_of_int ?x) / 2 ^ 24"
    using float32_sqrt_relative [of "nat ?x"] x0 by simp
  have s0: "d = 0 \<longrightarrow> float32_sqrt (nat ?x) = 0"
    by (simp add: float32_of_int_exact float32_sqrt_0)
  have "float32_sqrt (Suc 0) = 1" using float32_sqrt_1 by simp
  then have s1: "d = 1 \<longrightarrow> float32_sqrt (nat ?x) = 1"
    by (simp add: float32_of_int_exact)
  have s4: "d = 4 \<longrightarrow> float32_sqrt (nat ?x) = 2"
    by (simp add: float32_of_int_exact float32_sqrt_4)
  have ex: "d < 2 ^ 24 \<longrightarrow> ?x = d"
    using assms(1) by (simp add: float32_of_int_exact)
  show ?thesis
    unfolding m using v e s0 s1 s4 ex float32_of_int_relative [OF assms(1)]
    by simp
qed

theorem measure_complexity_sqrt_witness:
  "(0::int) \<le> 16777217 \<and> (16777217::int) < 2 ^ 64 \<and>
   fst (measure_complexity (SimpleDNNBuilder_init ''RMSProp'' 32 16777217 False (Some 42)) []) =
     Inr (Sqrt 2 (Cast 1 (Const 0 16777217))) \<and>
   float32_of_int 16777217 = 16777216 \<and>
   float32_value (Sqrt 2 (Cast 1 (Const 0 16777217))) = number 4096 \<and>
   (\<exists>t r. fst (measure_complexity
               (SimpleDNNBuilder_init ''RMSProp'' 32 16777217 False (Some 42)) []) = Inr t \<and>
      unnamed t = Sqrt 0 (Cast 0 (Const 0 16777217)) \<and>
      float32_value t = number r \<and>
      \<bar>r - sqrt (real_of_int (float32_of_int 16777217))\<bar> \<le>
        sqrt (real_of_int (float32_of_int 16777217)) / 2 ^ 24 \<and>
      \<bar>real_of_int (float32_of_int 16777217) - real_of_int 16777217\<bar> \<le>
        real_of_int 16777217 / 2 ^ 24 \<and>
      fst (snd (measure_complexity
                 (SimpleDNNBuilder_init ''RMSProp'' 32 16777217 False (Some 42)) [])) =
        SimpleDNNBuilder_init ''RMSProp'' 32 16777217 False (Some 42) \<and>
      (\<exists>c f. snd (snd (measure_complexity
                 (SimpleDNNBuilder_init ''RMSProp'' 32 16777217 False (Some 42)) [])) =
         [] @ [c, f, t]))"
proof -
  have h1: "(0::int) \<le> 16777217" and h2: "(16777217::int) < 2 ^ 64" by simp_all
  have m: "fst (measure_complexity
      (SimpleDNNBuilder_init ''RMSProp'' 32 16777217 False (Some 42)) []) =
     Inr (Sqrt 2 (Cast 1 (Const 0 16777217)))"
    by (simp add: measure_complexity_result)
  have v: "float32_value (Sqrt 2 (Cast 1 (Const 0 16777217))) = number 4096"
    by (simp add: float32_of_int_16777217 float32_sqrt_16777216)
  from measure_complexity_sqrt [OF h1 h2, of "''RMSProp''" 32 False "Some 42" "[]"]
  show ?thesis
    using h1 h2 m v float32_of_int_16777217 by blast
qed

text \<open>
  Stated of the real square root, of every depth and of every effect, the property fails:
  at depth 2 the score is the \<open>float32\<close> \<open>11863283 / 2 ^ 23\<close>, about 1.4142135, and not the
  square root of 2; the call leaves nodes in the default graph; and at depth \<open>2 ^ 64\<close> it
  raises \<^verbatim>\<open>TypeError\<close>.
\<close>

theorem measure_complexity_sqrt_counterexample:
  "fst (measure_complexity sample_builder []) = Inr (Sqrt 2 (Cast 1 (Const 0 2))) \<and>
   float32_value (Sqrt 2 (Cast 1 (Const 0 2))) = number (11863283 / 8388608) \<and>
   (11863283 / 8388608 :: real) \<noteq> sqrt 2 \<and>
   snd (snd (measure_complexity sample_builder [])) \<noteq> [] \<and>
   fst (measure_complexity too_deep_builder [Placeholder ''features'' float64]) = Inl TypeError"
proof -
  have "(11863283 / 8388608 :: real) \<noteq> sqrt 2"
  proof
    assume "(11863283 / 8388608 :: real) = sqrt 2"
    then have "(11863283 / 8388608 :: real) ^ 2 = (sqrt 2) ^ 2" by (rule arg_cong)
    then show False by (simp add: power2_eq_square)
  qed
  moreover have "float32_value (Sqrt 2 (Cast 1 (Const 0 2))) = number (11863283 / 8388608)"
    by (simp add: float32_of_int_exact float32_sqrt_2)
  moreover have "fst (measure_complexity too_deep_builder [Placeholder ''features'' float64]) =
      Inl TypeError"
    by (simp add: measure_complexity_too_large too_deep_builder_def)
  ultimately show ?thesis
    by (simp add: measure_complexity_result sample_builder_def)
qed

text \<open>
  C4, for the depths that have a score. The score does not decrease with the depth: for depths
  \<open>0 \<le> d1 < d2 < 2 ^ 64\<close> both scores exist, and the \<open>float32\<close> score at \<open>d1\<close> is at most
  the score at \<open>d2\<close>, whatever the other fields of the two builders and whatever the graph.
\<close>

theorem measure_complexity_mono:
  assumes "0 \<le> d1" and "d1 < d2" and "d2 < 2 ^ 64"
  shows "\<exists>t1 t2 r1 r2.
           fst (measure_complexity (SimpleDNNBuilder_init opt1 ls1 d1 lmw1 sd1) g1) = Inr t1 \<and>
           fst (measure_complexity (SimpleDNNBuilder_init opt2 ls2 d2 lmw2 sd2) g2) = Inr t2 \<and>
           float32_value t1 = number r1 \<and> float32_value t2 = number r2 \<and> r1 \<le> r2"
proof -
  have "float32_of_int d1 \<le> float32_of_int d2"
    using assms by (intro float32_of_int_mono) simp_all
  then have "nat (float32_of_int d1) \<le> nat (float32_of_int d2)" by simp
  from float32_sqrt_mono [OF this] assms show ?thesis
    by (simp add: measure_complexity_result)
qed

theorem measure_complexity_mono_witness:
  "(0::int) \<le> 16777216 \<and> (16777216::int) < 16777217 \<and> (16777217::int) < 2 ^ 64 \<and>
   float32_value (Sqrt 2 (Cast 1 (Const 0 16777216))) = number 4096 \<and>
   float32_value (Sqrt 2 (Cast 1 (Const 0 16777217))) = number 4096 \<and>
   (\<exists>t1 t2 r1 r2.
      fst (measure_complexity (SimpleDNNBuilder_init ''RMSProp'' 32 16777216 False None) []) =
        Inr t1 \<and>
      fst (measure_complexity (SimpleDNNBuilder_init ''RMSProp'' 32 16777217 True None) []) =
        Inr t2 \<and>
      float32_value t1 = number r1 \<and> float32_value t2 = number r2 \<and> r1 \<le> r2)"
proof -
  have h1: "(0::int) \<le> 16777216" and h2: "(16777216::int) < 16777217"
    and h3: "(16777217::int) < 2 ^ 64" by simp_all
  have v1: "float32_value (Sqrt 2 (Cast 1 (Const 0 16777216))) = number 4096"
    by (simp add: float32_of_int_16777216 float32_sqrt_16777216)
  have v2: "float32_value (Sqrt 2 (Cast 1 (Const 0 16777217))) = number 4096"
    by (simp add: float32_of_int_16777217 float32_sqrt_16777216)
  from measure_complexity_mono [OF h1 h2 h3, of "''RMSProp''" 32 False None "[]"
      "''RMSProp''" 32 True None "[]"]
  show ?thesis using h1 h2 h3 v1 v2 by blast
qed

text \<open>
  Without the bound the statement fails: at depth \<open>2 ^ 64\<close> there is no score to compare,
  the call raises \<^verbatim>\<open>TypeError\<close>.
\<close>

theorem measure_complexity_mono_counterexample:
  "measure_complexity too_deep_builder [] = (Inl TypeError, too_deep_builder, [])"
  by (simp add: measure_complexity_too_large too_deep_builder_def)

subsection \<open>Purity\<close>





subsection \<open>The train operation of the mixture weights\<close>

text \<open>
  C9. \<open>build_mixture_weights_train_op\<close> returns the no-op exactly when the builder's flag
  \<open>learn_mixture_weights\<close> is false, and the minimize step of the builder's optimizer on the
  given loss and variables exactly when the flag is true.
\<close>

theorem build_mixture_weights_train_op_flag:
  "(fst (build_mixture_weights_train_op self loss var_list lg labels step summary) = tf_no_op) =
     (\<not> learn_mixture_weights self) \<and>
   (fst (build_mixture_weights_train_op self loss var_list lg labels step summary) =
      minimize (optimizer self) loss var_list) =
     learn_mixture_weights self"
  by (simp add: build_mixture_weights_train_op_def)

subsection \<open>The name of a candidate\<close>












subsection \<open>Building the subnetwork\<close>


lemma tf_layers_dense_negative:
  "units < 0 \<Longrightarrow> tf_layers_dense t units act k g = (Inl ValueError, g)"
  by (simp add: tf_layers_dense_def)

lemma layers_above_self [simp]: "layers_above t t = Some []"
  by (cases t) simp_all




lemma hidden_layers_negative:
  "units < 0 \<Longrightarrow> hidden_layers (Suc n) units k t g = (Inl ValueError, g)"
  by (simp add: tf_layers_dense_negative)






end
